theory Spec2Isabelle
  imports Main "HOL-Library.Word"
begin

section \<open>Shared vocabulary: bytes, errors, the trace package\<close>

text \<open>
  A Go \<^verbatim>\<open>[]byte\<close> is a list of 8-bit words; the nil slice and the empty slice both
  have length 0 and are both the empty list. A Go \<^verbatim>\<open>string\<close> is a \<^typ>\<open>string\<close>.
\<close>

type_synonym byte = "8 word"
type_synonym bytes = "byte list"

text \<open>
  Errors. \<^verbatim>\<open>trace.BadParameter\<close> makes an error of kind bad-parameter carrying its
  message; every other error is plain text: the one \<^verbatim>\<open>errors.New\<close> makes, and those that
  enter the program from outside it (the operating system, the argument parser, the cluster
  client, the log package, the HTTP listener);
  \<^verbatim>\<open>trace.Wrap(err, msg)\<close> keeps the error it wraps and adds a message (the empty
  message when the call gives none). A Go \<^verbatim>\<open>error\<close> that may be nil is an
  \<^typ>\<open>'a option\<close>.
\<close>

datatype error =
    BadParameterError string
  | PlainError string
  | TraceErr error string

definition trace_BadParameter :: "string \<Rightarrow> error" where
  "trace_BadParameter message = BadParameterError message"

text \<open>\<^verbatim>\<open>trace.Wrap\<close> of nil is nil.\<close>

fun trace_Wrap :: "error option \<Rightarrow> string \<Rightarrow> error option" where
  "trace_Wrap None message = None"
| "trace_Wrap (Some err) message = Some (TraceErr err message)"

text \<open>\<^verbatim>\<open>trace.IsBadParameter\<close>: the kind of an error is the kind of what it wraps.\<close>

fun IsBadParameter :: "error \<Rightarrow> bool" where
  "IsBadParameter (BadParameterError message) = True"
| "IsBadParameter (PlainError message) = False"
| "IsBadParameter (TraceErr err message) = IsBadParameter err"

section \<open>stolonctl\<close>

subsection \<open>Collaborators\<close>

text \<open>
  The cluster client lives outside the two source files; the program uses it through five
  operations. \<^typ>\<open>'c\<close> is a cluster handle, \<^typ>\<open>'cfg\<close> a configuration document,
  \<^typ>\<open>'n\<close> an entry of the cluster listing.
\<close>

record ('c, 'cfg, 'n) client =
  client_getCluster :: "string \<Rightarrow> error + 'c"
  cluster_Config :: "'c \<Rightarrow> error + 'cfg"
  cluster_PatchConfig :: "'c \<Rightarrow> bytes \<Rightarrow> error option"
  cluster_ReplaceConfig :: "'c \<Rightarrow> bytes \<Rightarrow> error option"
  client_Clusters :: "error + 'n list"

text \<open>The store connection settings that the flags fill in.\<close>

record config =
  storeEndpoints :: string
  storeBackend :: string
  storeCertFile :: string
  storeKeyFile :: string
  storeCACertFile :: string

text \<open>
  What \<^verbatim>\<open>app.Parse\<close> leaves behind when it succeeds: the selected command and the
  values behind the pointers that the flag and argument declarations returned.
\<close>

record parsed =
  cmd :: string
  debug_value :: bool
  cfg :: config
  cmdClusterConfigName :: string
  cmdClusterPatchName :: string
  cmdClusterPatchFile :: string
  cmdClusterReplaceName :: string
  cmdClusterReplaceFile :: string
  cmdClusterStatusName :: string
  cmdClusterStatusMasterOnly :: bool
  cmdClusterStatusOutputJson :: bool

text \<open>
  Everything the process reads from its surroundings. \<^verbatim>\<open>ioutil.ReadAll\<close> and
  \<^verbatim>\<open>ioutil.ReadFile\<close> return the bytes read so far together with the error, so
  both are pairs. \<^verbatim>\<open>newClient\<close> and \<^verbatim>\<open>status\<close> belong to the package but not
  to the two source files, so they are taken as given.
\<close>

record ('c, 'cfg, 'n) env =
  os_Args :: "string list"
  ioutil_ReadAll_Stdin :: "bytes \<times> error option"
  ioutil_ReadFile :: "string \<Rightarrow> bytes \<times> error option"
  json_MarshalIndent :: "'cfg \<Rightarrow> string \<Rightarrow> string \<Rightarrow> bytes \<times> error option"
  fmt_Sprint_cluster :: "'n \<Rightarrow> string"
  kingpin_Parse :: "string list \<Rightarrow> error + parsed"
  newClient :: "config \<Rightarrow> error + ('c, 'cfg, 'n) client"
  status :: "('c, 'cfg, 'n) client \<Rightarrow> string \<Rightarrow> bool \<Rightarrow> bool \<Rightarrow> error option"

text \<open>What the process does to its surroundings, in the order it does it.\<close>

datatype 'c event =
    EvInitLoggerDebug
  | EvInitLoggerCLI
  | EvReadStdin
  | EvReadFile string
  | EvGetCluster string
  | EvConfig 'c
  | EvPatchConfig 'c bytes
  | EvReplaceConfig 'c bytes
  | EvClusters
  | EvStatus string bool bool
  | EvStdout string

subsection \<open>Printing with the fmt package\<close>

definition newline :: char where
  "newline = CHR 0x0A"

definition tab :: char where
  "tab = CHR 0x09"

definition digit :: "nat \<Rightarrow> char" where
  "digit d = char_of (48 + d)"

fun decimal :: "nat \<Rightarrow> string" where
  "decimal n = (if n < 10 then [digit n] else decimal (n div 10) @ [digit (n mod 10)])"

declare decimal.simps [simp del]

fun join_space :: "string list \<Rightarrow> string" where
  "join_space [] = []"
| "join_space [s] = s"
| "join_space (s # t # ss) = s @ '' '' @ join_space (t # ss)"

text \<open>
  \<^verbatim>\<open>fmt.Fprintln(w, data)\<close> with \<^verbatim>\<open>data\<close> a \<^verbatim>\<open>[]byte\<close>: the default format of
  a byte slice is its elements in decimal, separated by spaces, in square brackets; then the
  newline.
\<close>

definition fmt_Sprintln_bytes :: "bytes \<Rightarrow> string" where
  "fmt_Sprintln_bytes data = ''['' @ join_space (map (\<lambda>b. decimal (unat b)) data) @ '']'' @ [newline]"

text \<open>The conversion \<^verbatim>\<open>string(data)\<close>.\<close>

definition string_of_bytes :: "bytes \<Rightarrow> string" where
  "string_of_bytes data = map (\<lambda>b. char_of (unat b)) data"

definition bytes_of_string :: "string \<Rightarrow> bytes" where
  "bytes_of_string s = map of_char s"

subsection \<open>The payload resolver and the commands\<close>

definition readFile ::
  "('c, 'cfg, 'n) env \<Rightarrow> string \<Rightarrow> bool \<Rightarrow> (bytes \<times> error option) \<times> 'c event list" where
  "readFile e fileName readStdin =
     (if (readStdin \<and> fileName \<noteq> '''') \<or> (\<not> readStdin \<and> fileName = '''') then
        (([], Some (trace_BadParameter ''need either file to read from or readStdin option'')), [])
      else if readStdin then
        (case ioutil_ReadAll_Stdin e of
           (config, err) \<Rightarrow>
             if err \<noteq> None then
               (([], trace_Wrap err ''cannot read config file from stdin''), [EvReadStdin])
             else ((config, trace_Wrap err ''''), [EvReadStdin]))
      else
        (case ioutil_ReadFile e fileName of
           (config, err) \<Rightarrow>
             if err \<noteq> None then
               (([], trace_Wrap err ''can not read file''), [EvReadFile fileName])
             else ((config, trace_Wrap err ''''), [EvReadFile fileName])))"

definition patchConfig ::
  "('c, 'cfg, 'n) env \<Rightarrow> ('c, 'cfg, 'n) client \<Rightarrow> string \<Rightarrow> string \<Rightarrow> bool
     \<Rightarrow> error option \<times> 'c event list" where
  "patchConfig e clt clusterName patchFile readStdin =
     (case readFile e patchFile readStdin of
        ((data, err), evs) \<Rightarrow>
          if err \<noteq> None then (trace_Wrap err '''', evs)
          else
            (case client_getCluster clt clusterName of
               Inl err \<Rightarrow> (trace_Wrap (Some err) '''', evs @ [EvGetCluster clusterName])
             | Inr cluster \<Rightarrow>
                 (trace_Wrap (cluster_PatchConfig clt cluster data) '''',
                  evs @ [EvGetCluster clusterName, EvPatchConfig cluster data])))"

definition replaceConfig ::
  "('c, 'cfg, 'n) env \<Rightarrow> ('c, 'cfg, 'n) client \<Rightarrow> string \<Rightarrow> string \<Rightarrow> bool
     \<Rightarrow> error option \<times> 'c event list" where
  "replaceConfig e clt clusterName replaceFile readStdin =
     (case readFile e replaceFile readStdin of
        ((data, err), evs) \<Rightarrow>
          if err \<noteq> None then (trace_Wrap err '''', evs)
          else
            (case client_getCluster clt clusterName of
               Inl err \<Rightarrow> (trace_Wrap (Some err) '''', evs @ [EvGetCluster clusterName])
             | Inr cluster \<Rightarrow>
                 (trace_Wrap (cluster_ReplaceConfig clt cluster data) '''',
                  evs @ [EvGetCluster clusterName, EvReplaceConfig cluster data])))"

definition printConfig ::
  "('c, 'cfg, 'n) env \<Rightarrow> ('c, 'cfg, 'n) client \<Rightarrow> string \<Rightarrow> error option \<times> 'c event list" where
  "printConfig e clt clusterName =
     (case client_getCluster clt clusterName of
        Inl err \<Rightarrow> (trace_Wrap (Some err) '''', [EvGetCluster clusterName])
      | Inr cluster \<Rightarrow>
          (case cluster_Config clt cluster of
             Inl err \<Rightarrow> (trace_Wrap (Some err) '''', [EvGetCluster clusterName, EvConfig cluster])
           | Inr c \<Rightarrow>
               (case json_MarshalIndent e c '''' [tab] of
                  (data, err) \<Rightarrow>
                    if err \<noteq> None then
                      (trace_Wrap err ''failed to marshal configuration'',
                       [EvGetCluster clusterName, EvConfig cluster])
                    else
                      (None,
                       [EvGetCluster clusterName, EvConfig cluster,
                        EvStdout (fmt_Sprintln_bytes data)]))))"

definition list_clusters ::
  "('c, 'cfg, 'n) env \<Rightarrow> ('c, 'cfg, 'n) client \<Rightarrow> error option \<times> 'c event list" where
  "list_clusters e clt =
     (case client_Clusters clt of
        Inl err \<Rightarrow> (trace_Wrap (Some err) '''', [EvClusters])
      | Inr clusters \<Rightarrow>
          (None, EvClusters # map (\<lambda>cluster. EvStdout (fmt_Sprint_cluster e cluster @ [newline])) clusters))"

subsection \<open>The dispatcher\<close>

text \<open>The names \<^verbatim>\<open>FullCommand()\<close> gives the five commands.\<close>

definition cmdClusterConfig :: string where "cmdClusterConfig = ''cluster config''"
definition cmdClusterPatch :: string where "cmdClusterPatch = ''cluster patch''"
definition cmdClusterReplace :: string where "cmdClusterReplace = ''cluster replace''"
definition cmdClusterStatus :: string where "cmdClusterStatus = ''cluster status''"
definition cmdClusterList :: string where "cmdClusterList = ''cluster list''"

text \<open>
  \<^verbatim>\<open>os.Args[len(os.Args)-1] == "-"\<close>, evaluated where \<^verbatim>\<open>os.Args\<close> is known to be
  non-empty (the slice expression \<^verbatim>\<open>os.Args[1:]\<close> has already been evaluated).
\<close>

definition lastArgIsDash :: "string list \<Rightarrow> bool" where
  "lastArgIsDash args = (args ! (length args - 1) = ''-'')"

text \<open>
  How a call of \<^verbatim>\<open>run\<close> ends: it returns an error or nil, or the runtime panics.
  \<^verbatim>\<open>debug_var\<close> is the variable \<^verbatim>\<open>debug\<close> when \<^verbatim>\<open>run\<close> ends.
\<close>

datatype ending = Returned "error option" | Panicked string

record 'c run_result =
  ending :: ending
  events :: "'c event list"
  debug_var :: bool

definition run :: "('c, 'cfg, 'n) env \<Rightarrow> 'c run_result" where
  "run e =
     (let debug = False;
          logger = (if debug then [EvInitLoggerDebug] else [EvInitLoggerCLI])
      in
        if length (os_Args e) < 1 then
          \<lparr>ending = Panicked ''slice bounds out of range'', events = logger,
           debug_var = debug\<rparr>
        else
          (case kingpin_Parse e (drop 1 (os_Args e)) of
             Inl err \<Rightarrow>
               \<lparr>ending = Returned (trace_Wrap (Some err) ''''), events = logger,
                debug_var = debug\<rparr>
           | Inr p \<Rightarrow>
               (let debug = debug_value p in
                  (case newClient e (cfg p) of
                     Inl err \<Rightarrow>
                       \<lparr>ending = Returned (trace_Wrap (Some err) ''''), events = logger,
                        debug_var = debug\<rparr>
                   | Inr ctl \<Rightarrow>
                       if cmd p = cmdClusterConfig then
                         (case printConfig e ctl (cmdClusterConfigName p) of
                            (err, evs) \<Rightarrow>
                              \<lparr>ending = Returned err, events = logger @ evs,
                               debug_var = debug\<rparr>)
                       else if cmd p = cmdClusterPatch then
                         (case patchConfig e ctl (cmdClusterPatchName p) (cmdClusterPatchFile p)
                                 (lastArgIsDash (os_Args e)) of
                            (err, evs) \<Rightarrow>
                              \<lparr>ending = Returned err, events = logger @ evs,
                               debug_var = debug\<rparr>)
                       else if cmd p = cmdClusterReplace then
                         (case replaceConfig e ctl (cmdClusterReplaceName p) (cmdClusterReplaceFile p)
                                 (lastArgIsDash (os_Args e)) of
                            (err, evs) \<Rightarrow>
                              \<lparr>ending = Returned err, events = logger @ evs,
                               debug_var = debug\<rparr>)
                       else if cmd p = cmdClusterStatus then
                         \<lparr>ending = Returned (status e ctl (cmdClusterStatusName p)
                                      (cmdClusterStatusMasterOnly p) (cmdClusterStatusOutputJson p)),
                          events = logger @ [EvStatus (cmdClusterStatusName p)
                                      (cmdClusterStatusMasterOnly p) (cmdClusterStatusOutputJson p)],
                          debug_var = debug\<rparr>
                       else if cmd p = cmdClusterList then
                         (case list_clusters e ctl of
                            (err, evs) \<Rightarrow>
                              \<lparr>ending = Returned err, events = logger @ evs,
                               debug_var = debug\<rparr>)
                       else
                         \<lparr>ending = Returned None, events = logger,
                          debug_var = debug\<rparr>))))"

section \<open>stolonrpc\<close>

subsection \<open>Configuration and logging\<close>

record Config =
  LogLevel :: string
  Port :: string
  DatabaseHost :: string
  DatabasePort :: string
  DatabaseUsername :: string

record ConnSettings =
  conn_Host :: string
  conn_Port :: string
  conn_Username :: string

datatype Level = PanicLevel | FatalLevel | ErrorLevel | WarnLevel | InfoLevel | DebugLevel

datatype signal = SIGINT | SIGTERM

text \<open>The text \<^verbatim>\<open>%s\<close> prints for a signal.\<close>

fun signal_String :: "signal \<Rightarrow> string" where
  "signal_String SIGINT = ''interrupt''"
| "signal_String SIGTERM = ''terminated''"

text \<open>
  One completed receive of the \<^verbatim>\<open>select\<close> statement: a value of the fault channel
  (an \<^verbatim>\<open>error\<close>, which may be nil) or a value of the signal channel.
\<close>

datatype received = FromErrChan "error option" | FromSignalChan signal

text \<open>
  The surroundings of the service: what \<^verbatim>\<open>envconfig.Process\<close> writes into the
  configuration and returns, the two library functions \<^verbatim>\<open>setupLogging\<close> calls, and
  the values that the \<^verbatim>\<open>select\<close> statement receives, in the order it receives them.
  When the list is used up, no further value ever arrives.
\<close>

record rpc_env =
  envconfig_Process :: "Config \<times> error option"
  strings_ToLower :: "string \<Rightarrow> string"
  log_ParseLevel :: "string \<Rightarrow> error + Level"
  selected :: "received list"

datatype rpc_event =
    TraceSetDebug bool
  | LogSetLevel Level
  | LogSetFormatter
  | LogSetOutput
  | LogInfof string
  | LogFatal error
  | RpcNewServer
  | RegisterCodec string
  | RegisterService string ConnSettings
  | RouterHandle string
  | GoListenAndServe string
  | SignalNotify "signal list"

definition ErrCantParseConfig :: error where
  "ErrCantParseConfig = PlainError (''Can'' @ [CHR 0x27] @ ''t parse config'')"

text \<open>\<^verbatim>\<open>GetConfig\<close> returns a pointer, which is nil when the error is not.\<close>

definition GetConfig :: "rpc_env \<Rightarrow> Config option \<times> error option" where
  "GetConfig e =
     (case envconfig_Process e of
        (config, err) \<Rightarrow>
          if err \<noteq> None then (None, trace_Wrap (Some ErrCantParseConfig) '''')
          else (Some config, None))"

definition setupLogging :: "rpc_env \<Rightarrow> string \<Rightarrow> error option \<times> rpc_event list" where
  "setupLogging e level =
     (let lvl = strings_ToLower e level;
          evs = (if lvl = ''debug'' then [TraceSetDebug True] else [])
      in case log_ParseLevel e lvl of
           Inl err \<Rightarrow> (Some err, evs)
         | Inr sev \<Rightarrow> (None, evs @ [LogSetLevel sev, LogSetFormatter, LogSetOutput]))"

subsection \<open>The supervision loop\<close>

text \<open>
  How the process stands: it has exited with a status, the runtime has panicked, or it is
  blocked in \<^verbatim>\<open>select\<close> with nothing left to receive.
\<close>

datatype rpc_ending = Exited int | RuntimePanic string | Waiting

record rpc_result =
  rpc_events :: "rpc_event list"
  rpc_ending :: rpc_ending
  receives :: nat

text \<open>
  \<^verbatim>\<open>for { select { ... } }\<close>. \<^verbatim>\<open>log.Fatal\<close> writes the entry and exits with
  status 1. \<^verbatim>\<open>receives\<close> counts the receives the loop has completed.
\<close>

fun supervise :: "received list \<Rightarrow> rpc_result" where
  "supervise [] = \<lparr>rpc_events = [], rpc_ending = Waiting, receives = 0\<rparr>"
| "supervise (FromErrChan err # rs) =
     (case err of
        Some fault \<Rightarrow> \<lparr>rpc_events = [LogFatal fault], rpc_ending = Exited 1, receives = 1\<rparr>
      | None \<Rightarrow> (let r = supervise rs in r\<lparr>receives := Suc (receives r)\<rparr>))"
| "supervise (FromSignalChan s # rs) =
     \<lparr>rpc_events = [LogInfof (''Captured '' @ signal_String s @ ''. Exiting...'')],
      rpc_ending = Exited 0, receives = 1\<rparr>"

subsection \<open>Startup\<close>

text \<open>\<^verbatim>\<open>%+v\<close> of the pointer to the configuration.\<close>

definition fmt_Config :: "Config \<Rightarrow> string" where
  "fmt_Config c =
     ''&{LogLevel:'' @ LogLevel c @ '' Port:'' @ Port c @ '' DatabaseHost:'' @ DatabaseHost c
       @ '' DatabasePort:'' @ DatabasePort c @ '' DatabaseUsername:'' @ DatabaseUsername c @ ''}''"

text \<open>\<^verbatim>\<open>net.JoinHostPort("", port)\<close>.\<close>

definition net_JoinHostPort_empty :: "string \<Rightarrow> string" where
  "net_JoinHostPort_empty port = '':'' @ port"

text \<open>
  The statements of \<^verbatim>\<open>main\<close> from the construction of the RPC server to the
  registration of the signals, for a configuration \<^verbatim>\<open>c\<close>.
\<close>

definition serve :: "Config \<Rightarrow> rpc_event list" where
  "serve c =
     [RpcNewServer,
      RegisterCodec ''application/json'',
      RegisterCodec ''application/json;charset=UTF-8'',
      RegisterService ''DatabaseOperation''
        \<lparr>conn_Host = DatabaseHost c, conn_Port = DatabasePort c, conn_Username = DatabaseUsername c\<rparr>,
      RouterHandle ''/rpc'',
      GoListenAndServe (net_JoinHostPort_empty (Port c)),
      SignalNotify [SIGINT, SIGTERM]]"

text \<open>
  \<^verbatim>\<open>main\<close>. In both \<^verbatim>\<open>if err != nil\<close> blocks the value of
  \<^verbatim>\<open>trace.Wrap(err)\<close> is computed and dropped, so neither block does anything;
  \<^verbatim>\<open>c.LogLevel\<close> on the nil pointer is the runtime's nil dereference.
\<close>

definition stolonrpc_main :: "rpc_env \<Rightarrow> rpc_result" where
  "stolonrpc_main e =
     (case GetConfig e of
        (c, err) \<Rightarrow>
          (let dropped = (if err \<noteq> None then trace_Wrap err '''' else None) in
             (case c of
                None \<Rightarrow>
                  \<lparr>rpc_events = [],
                   rpc_ending = RuntimePanic ''invalid memory address or nil pointer dereference'',
                   receives = 0\<rparr>
              | Some c \<Rightarrow>
                  (case setupLogging e (LogLevel c) of
                     (err, evs) \<Rightarrow>
                       (let dropped = (if err \<noteq> None then trace_Wrap err '''' else None);
                            r = supervise (selected e)
                        in r\<lparr>rpc_events :=
                               evs @ [LogInfof (''Start with config: '' @ fmt_Config c)] @ serve c
                                 @ rpc_events r\<rparr>)))))"

section \<open>Vocabulary of the properties\<close>

text \<open>
  The two logging calls with which the supervision loop ends the process:
  \<^verbatim>\<open>log.Fatal\<close> and \<^verbatim>\<open>log.Infof\<close>.
\<close>

fun is_fatal :: "rpc_event \<Rightarrow> bool" where
  "is_fatal (LogFatal err) = True"
| "is_fatal ev = False"

fun is_captured :: "rpc_event \<Rightarrow> bool" where
  "is_captured (LogInfof text) = True"
| "is_captured ev = False"

definition is_nil_fault :: "received \<Rightarrow> bool" where
  "is_nil_fault r = (r = FromErrChan None)"

section \<open>Sample surroundings\<close>

text \<open>
  A store with one cluster, \<^verbatim>\<open>mycluster\<close>, whose handle is 1 and whose configuration
  marshals to \<^verbatim>\<open>{}\<close>; a file system with one file, \<^verbatim>\<open>./patch.json\<close>; a standard
  input that holds the same bytes as the file.
\<close>

definition sample_payload :: bytes where
  \<open>sample_payload = bytes_of_string ''{"retention":"7d"}''\<close>

definition sample_client :: "(nat, unit, string) client" where
  "sample_client =
     \<lparr>client_getCluster =
        (\<lambda>name. if name = ''mycluster'' then Inr 1 else Inl (PlainError ''cluster not found'')),
      cluster_Config = (\<lambda>cluster. Inr ()),
      cluster_PatchConfig = (\<lambda>cluster data. None),
      cluster_ReplaceConfig = (\<lambda>cluster data. None),
      client_Clusters = Inr [''mycluster'']\<rparr>"

text \<open>
  What \<^verbatim>\<open>app.Parse\<close> leaves behind for a command and a value of \<^verbatim>\<open>--debug\<close>
  when no other flag and no argument is given: every string is empty, every switch is off,
  and the store backend comes from the environment variable \<^verbatim>\<open>STOLONCTL_STORE_BACKEND\<close>,
  set to \<^verbatim>\<open>etcd\<close>.
\<close>

definition parsed_defaults :: "string \<Rightarrow> bool \<Rightarrow> parsed" where
  "parsed_defaults command dbg =
     \<lparr>cmd = command, debug_value = dbg,
      cfg = \<lparr>storeEndpoints = '''', storeBackend = ''etcd'', storeCertFile = '''',
             storeKeyFile = '''', storeCACertFile = ''''\<rparr>,
      cmdClusterConfigName = '''',
      cmdClusterPatchName = '''', cmdClusterPatchFile = '''',
      cmdClusterReplaceName = '''', cmdClusterReplaceFile = '''',
      cmdClusterStatusName = '''',
      cmdClusterStatusMasterOnly = False, cmdClusterStatusOutputJson = False\<rparr>"

text \<open>
  The outcome of \<^verbatim>\<open>app.Parse\<close> on the command lines used below. The parser reads a
  lone \<^verbatim>\<open>-\<close> as a flag without a name and refuses it, unless it comes after the
  terminator \<^verbatim>\<open>--\<close>, where every element is an argument: so a command line that ends
  in \<^verbatim>\<open>-\<close> is accepted when the \<^verbatim>\<open>-\<close> is the cluster name after
  \<^verbatim>\<open>--\<close>. Every command line that is not listed is refused here.
\<close>

definition sample_Parse :: "string list \<Rightarrow> error + parsed" where
  "sample_Parse rest =
     (if rest = [''cluster'', ''config'', ''mycluster''] then
        Inr ((parsed_defaults ''cluster config'' False)\<lparr>cmdClusterConfigName := ''mycluster''\<rparr>)
      else if rest = [''cluster'', ''patch'', ''mycluster''] then
        Inr ((parsed_defaults ''cluster patch'' False)\<lparr>cmdClusterPatchName := ''mycluster''\<rparr>)
      else if rest = [''cluster'', ''patch'', ''--file=./patch.json'', ''mycluster''] then
        Inr ((parsed_defaults ''cluster patch'' False)
               \<lparr>cmdClusterPatchName := ''mycluster'', cmdClusterPatchFile := ''./patch.json''\<rparr>)
      else if rest = [''cluster'', ''patch'', ''--'', ''-''] then
        Inr ((parsed_defaults ''cluster patch'' False)\<lparr>cmdClusterPatchName := ''-''\<rparr>)
      else if rest = [''cluster'', ''replace'', ''mycluster''] then
        Inr ((parsed_defaults ''cluster replace'' False)\<lparr>cmdClusterReplaceName := ''mycluster''\<rparr>)
      else if rest = [''cluster'', ''replace'', ''--file=./patch.json'', ''mycluster''] then
        Inr ((parsed_defaults ''cluster replace'' False)
               \<lparr>cmdClusterReplaceName := ''mycluster'', cmdClusterReplaceFile := ''./patch.json''\<rparr>)
      else if rest = [''cluster'', ''replace'', ''--'', ''-''] then
        Inr ((parsed_defaults ''cluster replace'' False)\<lparr>cmdClusterReplaceName := ''-''\<rparr>)
      else if rest = [''--debug'', ''cluster'', ''list''] then
        Inr (parsed_defaults ''cluster list'' True)
      else Inl (PlainError ''unexpected arguments''))"

definition sample_env :: "string list \<Rightarrow> (nat, unit, string) env" where
  "sample_env args =
     \<lparr>os_Args = args,
      ioutil_ReadAll_Stdin = (sample_payload, None),
      ioutil_ReadFile =
        (\<lambda>name. if name = ''./patch.json'' then (sample_payload, None)
                else ([], Some (PlainError ''no such file or directory''))),
      json_MarshalIndent = (\<lambda>c prefix indent. (bytes_of_string ''{}'', None)),
      fmt_Sprint_cluster = (\<lambda>name. name),
      kingpin_Parse = sample_Parse,
      newClient = (\<lambda>c. Inr sample_client),
      status = (\<lambda>clt name masterOnly outputJson. None)\<rparr>"

text \<open>
  \<^verbatim>\<open>strings.ToLower\<close> on ASCII text, and the table of \<^verbatim>\<open>log.ParseLevel\<close>.
\<close>

definition ascii_ToLower :: "string \<Rightarrow> string" where
  "ascii_ToLower s =
     map (\<lambda>c. if 65 \<le> (of_char c :: nat) \<and> (of_char c :: nat) \<le> 90
               then char_of ((of_char c :: nat) + 32) else c) s"

definition logrus_ParseLevel :: "string \<Rightarrow> error + Level" where
  "logrus_ParseLevel lvl =
     (if lvl = ''panic'' then Inr PanicLevel
      else if lvl = ''fatal'' then Inr FatalLevel
      else if lvl = ''error'' then Inr ErrorLevel
      else if lvl = ''warn'' \<or> lvl = ''warning'' then Inr WarnLevel
      else if lvl = ''info'' then Inr InfoLevel
      else if lvl = ''debug'' then Inr DebugLevel
      else Inl (PlainError (''not a valid logrus Level: '' @ lvl)))"

definition sample_rpc_env :: "string \<Rightarrow> received list \<Rightarrow> rpc_env" where
  "sample_rpc_env level rs =
     \<lparr>envconfig_Process =
        (\<lparr>LogLevel = level, Port = ''8080'', DatabaseHost = ''db'', DatabasePort = ''5432'',
          DatabaseUsername = ''stolon''\<rparr>, None),
      strings_ToLower = ascii_ToLower,
      log_ParseLevel = logrus_ParseLevel,
      selected = rs\<rparr>"


section \<open>The payload resolver\<close>

text \<open>
  C1. \<^verbatim>\<open>readFile\<close> succeeds only when exactly one of the two sources is chosen (the
  file name is non-empty, or \<^verbatim>\<open>readStdin\<close> is true, and not both); when both are
  chosen or neither is, it returns the bad-parameter error with the message
  \<^verbatim>\<open>need either file to read from or readStdin option\<close>, no bytes, and has read
  nothing.
\<close>

theorem readFile_exactly_one_source:
  "(snd (fst (readFile e fileName readStdin)) = None \<longrightarrow> (readStdin \<longleftrightarrow> fileName = ''''))
   \<and> ((readStdin \<longleftrightarrow> fileName \<noteq> '''') \<longrightarrow>
        readFile e fileName readStdin =
          (([], Some (BadParameterError ''need either file to read from or readStdin option'')), []))"
  by (auto simp: readFile_def trace_BadParameter_def split: prod.splits)

theorem readFile_exactly_one_source_witness:
  "snd (fst (readFile (sample_env []) ''./patch.json'' False)) = None
   \<and> readFile (sample_env []) ''./patch.json'' True =
          (([], Some (BadParameterError ''need either file to read from or readStdin option'')), [])
   \<and> readFile (sample_env []) '''' False =
          (([], Some (BadParameterError ''need either file to read from or readStdin option'')), [])"
  using readFile_exactly_one_source [of "sample_env []" "''./patch.json''" False]
        readFile_exactly_one_source [of "sample_env []" "''./patch.json''" True]
        readFile_exactly_one_source [of "sample_env []" "''''" False]
  by (simp add: readFile_def sample_env_def)

lemma readFile_from_file:
  assumes "fileName \<noteq> ''''" and "ioutil_ReadFile e fileName = (content, None)"
  shows "readFile e fileName False = ((content, None), [EvReadFile fileName])"
  using assms by (simp add: readFile_def)

lemma readFile_from_stdin:
  assumes "ioutil_ReadAll_Stdin e = (content, None)"
  shows "readFile e '''' True = ((content, None), [EvReadStdin])"
  using assms by (simp add: readFile_def)

text \<open>
  C4. When \<^verbatim>\<open>ioutil.ReadFile\<close> returns the content of the named file without an
  error, \<^verbatim>\<open>readFile\<close> returns exactly that content, and \<^verbatim>\<open>patchConfig\<close> and
  \<^verbatim>\<open>replaceConfig\<close> give exactly that content to \<^verbatim>\<open>PatchConfig\<close> and
  \<^verbatim>\<open>ReplaceConfig\<close> of the cluster that \<^verbatim>\<open>getCluster\<close> returned; when
  \<^verbatim>\<open>getCluster\<close> fails instead, its error is returned and nothing is forwarded.
\<close>

theorem file_payload_forwarded_unchanged:
  assumes "fileName \<noteq> ''''" and "ioutil_ReadFile e fileName = (content, None)"
  shows "readFile e fileName False = ((content, None), [EvReadFile fileName])
    \<and> (\<forall>cluster. client_getCluster clt clusterName = Inr cluster \<longrightarrow>
          patchConfig e clt clusterName fileName False =
            (trace_Wrap (cluster_PatchConfig clt cluster content) '''',
             [EvReadFile fileName, EvGetCluster clusterName, EvPatchConfig cluster content])
        \<and> replaceConfig e clt clusterName fileName False =
            (trace_Wrap (cluster_ReplaceConfig clt cluster content) '''',
             [EvReadFile fileName, EvGetCluster clusterName, EvReplaceConfig cluster content]))
    \<and> (\<forall>err. client_getCluster clt clusterName = Inl err \<longrightarrow>
          patchConfig e clt clusterName fileName False =
            (Some (TraceErr err ''''), [EvReadFile fileName, EvGetCluster clusterName])
        \<and> replaceConfig e clt clusterName fileName False =
            (Some (TraceErr err ''''), [EvReadFile fileName, EvGetCluster clusterName]))"
  using readFile_from_file [OF assms]
  by (simp add: patchConfig_def replaceConfig_def)

theorem file_payload_forwarded_unchanged_witness:
  "readFile (sample_env []) ''./patch.json'' False =
     ((sample_payload, None), [EvReadFile ''./patch.json''])
   \<and> patchConfig (sample_env []) sample_client ''mycluster''
        ''./patch.json'' False =
       (None, [EvReadFile ''./patch.json'', EvGetCluster ''mycluster'', EvPatchConfig 1 sample_payload])
   \<and> replaceConfig (sample_env []) sample_client ''mycluster''
        ''./patch.json'' False =
       (None, [EvReadFile ''./patch.json'', EvGetCluster ''mycluster'', EvReplaceConfig 1 sample_payload])
   \<and> patchConfig (sample_env []) sample_client ''other''
        ''./patch.json'' False =
       (Some (TraceErr (PlainError ''cluster not found'') ''''),
        [EvReadFile ''./patch.json'', EvGetCluster ''other''])"
proof -
  let ?e = "sample_env []"
  have name: "''./patch.json'' \<noteq> ''''"
    by simp
  have readable: "ioutil_ReadFile ?e ''./patch.json'' = (sample_payload, None)"
    by (simp add: sample_env_def)
  have found: "client_getCluster sample_client ''mycluster'' = Inr 1"
    by (simp add: sample_client_def)
  have missing: "client_getCluster sample_client ''other'' = Inl (PlainError ''cluster not found'')"
    by (simp add: sample_client_def)
  have quiet: "cluster_PatchConfig sample_client 1 sample_payload = None"
    "cluster_ReplaceConfig sample_client 1 sample_payload = None"
    by (simp_all add: sample_client_def)
  show ?thesis
    using file_payload_forwarded_unchanged [OF name readable, of sample_client "''mycluster''"]
      file_payload_forwarded_unchanged [OF name readable, of sample_client "''other''"]
      found missing quiet
    by simp
qed

text \<open>
  C5. The same bytes resolve to the same payload whether they come from standard input
  (\<^verbatim>\<open>readStdin\<close> true, no file name) or from a file: the payload is the content.
\<close>

theorem stdin_and_file_resolve_alike:
  assumes "ioutil_ReadAll_Stdin e1 = (content, None)"
    and "fileName \<noteq> ''''" and "ioutil_ReadFile e2 fileName = (content, None)"
  shows "fst (readFile e1 '''' True) = (content, None)
    \<and> fst (readFile e1 '''' True) = fst (readFile e2 fileName False)"
  using readFile_from_stdin [OF assms(1)] readFile_from_file [OF assms(2,3)]
  by simp

theorem stdin_and_file_resolve_alike_witness:
  "fst (readFile (sample_env []) '''' True) = (sample_payload, None)
   \<and> fst (readFile (sample_env []) '''' True) =
       fst (readFile (sample_env []) ''./patch.json'' False)"
proof -
  let ?e = "sample_env []"
  have stdin: "ioutil_ReadAll_Stdin ?e = (sample_payload, None)"
    by (simp add: sample_env_def)
  have name: "''./patch.json'' \<noteq> ''''"
    by simp
  have readable: "ioutil_ReadFile ?e ''./patch.json'' = (sample_payload, None)"
    by (simp add: sample_env_def)
  show ?thesis
    using stdin_and_file_resolve_alike [OF stdin name readable] .
qed

text \<open>
  C7. With no file name and \<^verbatim>\<open>readStdin\<close> false, \<^verbatim>\<open>patchConfig\<close> and
  \<^verbatim>\<open>replaceConfig\<close> return the bad-parameter error of the resolver and have done
  nothing before they return: no read, no \<^verbatim>\<open>getCluster\<close>, no \<^verbatim>\<open>PatchConfig\<close>,
  no \<^verbatim>\<open>ReplaceConfig\<close>.
\<close>

theorem no_source_no_client_call:
  "patchConfig e clt clusterName '''' False =
     (Some (TraceErr (BadParameterError ''need either file to read from or readStdin option'') ''''), [])
   \<and> replaceConfig e clt clusterName '''' False =
     (Some (TraceErr (BadParameterError ''need either file to read from or readStdin option'') ''''), [])
   \<and> IsBadParameter (TraceErr (BadParameterError ''need either file to read from or readStdin option'') '''')"
  by (simp add: patchConfig_def replaceConfig_def readFile_def trace_BadParameter_def)

theorem no_source_no_client_call_witness:
  "patchConfig (sample_env [''stolonctl'', ''cluster'', ''patch'', ''mycluster''])
       sample_client ''mycluster'' '''' False =
     (Some (TraceErr (BadParameterError ''need either file to read from or readStdin option'') ''''), [])
   \<and> snd (replaceConfig (sample_env [''stolonctl'', ''cluster'', ''replace'', ''mycluster''])
       sample_client ''mycluster'' '''' False) = []"
  using no_source_no_client_call
      [of "sample_env [''stolonctl'', ''cluster'', ''patch'', ''mycluster'']" sample_client
          "''mycluster''"]
    no_source_no_client_call
      [of "sample_env [''stolonctl'', ''cluster'', ''replace'', ''mycluster'']" sample_client
          "''mycluster''"]
  by simp

section \<open>The dispatcher\<close>

lemma lastArgIsDash_last:
  "args \<noteq> [] \<Longrightarrow> lastArgIsDash args = (last args = ''-'')"
  by (simp add: lastArgIsDash_def last_conv_nth)

lemma command_names_distinct:
  "cmdClusterPatch \<noteq> cmdClusterConfig" "cmdClusterReplace \<noteq> cmdClusterConfig"
  "cmdClusterReplace \<noteq> cmdClusterPatch"
  by (simp_all add: cmdClusterConfig_def cmdClusterPatch_def cmdClusterReplace_def)

lemma run_patch:
  assumes "os_Args e \<noteq> []" and "kingpin_Parse e (drop 1 (os_Args e)) = Inr p"
    and "newClient e (cfg p) = Inr ctl" and "cmd p = cmdClusterPatch"
  shows "run e =
     \<lparr>ending = Returned (fst (patchConfig e ctl (cmdClusterPatchName p) (cmdClusterPatchFile p)
                               (lastArgIsDash (os_Args e)))),
      events = EvInitLoggerCLI # snd (patchConfig e ctl (cmdClusterPatchName p) (cmdClusterPatchFile p)
                               (lastArgIsDash (os_Args e))),
      debug_var = debug_value p\<rparr>"
  using assms by (simp add: run_def command_names_distinct split: prod.splits)

lemma run_replace:
  assumes "os_Args e \<noteq> []" and "kingpin_Parse e (drop 1 (os_Args e)) = Inr p"
    and "newClient e (cfg p) = Inr ctl" and "cmd p = cmdClusterReplace"
  shows "run e =
     \<lparr>ending = Returned (fst (replaceConfig e ctl (cmdClusterReplaceName p) (cmdClusterReplaceFile p)
                               (lastArgIsDash (os_Args e)))),
      events = EvInitLoggerCLI # snd (replaceConfig e ctl (cmdClusterReplaceName p) (cmdClusterReplaceFile p)
                               (lastArgIsDash (os_Args e))),
      debug_var = debug_value p\<rparr>"
  using assms by (simp add: run_def command_names_distinct split: prod.splits)

text \<open>What \<^verbatim>\<open>readFile\<close> reads, by its two arguments.\<close>

lemma readFile_events:
  "snd (readFile e fileName readStdin) =
     (if readStdin \<longleftrightarrow> fileName \<noteq> '''' then []
      else if readStdin then [EvReadStdin] else [EvReadFile fileName])"
  by (auto simp: readFile_def split: prod.splits)

text \<open>
  The two commands in terms of the resolver: what they return and do is what
  \<^verbatim>\<open>readFile\<close>, called with the file name and the flag they were given, returns and
  does, followed by the calls of the client when the resolver returned no error.
\<close>

lemma patchConfig_resolves:
  "\<exists>calls. snd (patchConfig e clt n f s) = snd (readFile e f s) @ calls
     \<and> EvReadStdin \<notin> set calls \<and> EvReadFile f \<notin> set calls
     \<and> (\<forall>cluster data. EvPatchConfig cluster data \<in> set calls \<or> EvReplaceConfig cluster data \<in> set calls
           \<longrightarrow> data = fst (fst (readFile e f s)))
     \<and> (snd (fst (readFile e f s)) \<noteq> None \<longrightarrow>
           calls = [] \<and> fst (patchConfig e clt n f s) = trace_Wrap (snd (fst (readFile e f s))) '''')"
  by (cases "readFile e f s") (auto simp: patchConfig_def split: sum.splits)

lemma replaceConfig_resolves:
  "\<exists>calls. snd (replaceConfig e clt n f s) = snd (readFile e f s) @ calls
     \<and> EvReadStdin \<notin> set calls \<and> EvReadFile f \<notin> set calls
     \<and> (\<forall>cluster data. EvPatchConfig cluster data \<in> set calls \<or> EvReplaceConfig cluster data \<in> set calls
           \<longrightarrow> data = fst (fst (readFile e f s)))
     \<and> (snd (fst (readFile e f s)) \<noteq> None \<longrightarrow>
           calls = [] \<and> fst (replaceConfig e clt n f s) = trace_Wrap (snd (fst (readFile e f s))) '''')"
  by (cases "readFile e f s") (auto simp: replaceConfig_def split: sum.splits)

lemma run_resolves:
  assumes "os_Args e \<noteq> []" and "kingpin_Parse e (drop 1 (os_Args e)) = Inr p"
    and "newClient e (cfg p) = Inr ctl"
    and "(cmd p = cmdClusterPatch \<and> f = cmdClusterPatchFile p)
       \<or> (cmd p = cmdClusterReplace \<and> f = cmdClusterReplaceFile p)"
  shows "\<exists>calls. events (run e) = EvInitLoggerCLI # snd (readFile e f (last (os_Args e) = ''-'')) @ calls
     \<and> EvReadStdin \<notin> set calls \<and> EvReadFile f \<notin> set calls
     \<and> (\<forall>cluster data. EvPatchConfig cluster data \<in> set calls \<or> EvReplaceConfig cluster data \<in> set calls
           \<longrightarrow> data = fst (fst (readFile e f (last (os_Args e) = ''-''))))
     \<and> (snd (fst (readFile e f (last (os_Args e) = ''-''))) \<noteq> None \<longrightarrow>
           calls = []
         \<and> ending (run e) = Returned (trace_Wrap (snd (fst (readFile e f (last (os_Args e) = ''-'')))) ''''))"
  using assms(4)
proof
  assume c: "cmd p = cmdClusterPatch \<and> f = cmdClusterPatchFile p"
  show ?thesis
    using run_patch [OF assms(1-3)] c lastArgIsDash_last [OF assms(1)]
      patchConfig_resolves [of e ctl "cmdClusterPatchName p" f "last (os_Args e) = ''-''"]
    by auto
next
  assume c: "cmd p = cmdClusterReplace \<and> f = cmdClusterReplaceFile p"
  show ?thesis
    using run_replace [OF assms(1-3)] c lastArgIsDash_last [OF assms(1)]
      replaceConfig_resolves [of e ctl "cmdClusterReplaceName p" f "last (os_Args e) = ''-''"]
    by auto
qed

text \<open>
  C8. When \<^verbatim>\<open>run\<close> dispatches to \<^verbatim>\<open>patch\<close> or \<^verbatim>\<open>replace\<close>, the payload
  resolver \<^verbatim>\<open>readFile\<close> is called with the file name of the command and with
  \<^verbatim>\<open>readStdin\<close> true exactly when the last element of \<^verbatim>\<open>os.Args\<close> is the string
  \<^verbatim>\<open>-\<close>. After the logger, \<^verbatim>\<open>run\<close> does what that call of \<^verbatim>\<open>readFile\<close>
  does; when that call returns an error, \<^verbatim>\<open>run\<close> returns it wrapped and does nothing
  more; every payload given to the client is the one that call returned. So standard input
  is read exactly when the last element is \<^verbatim>\<open>-\<close> and no file is named, and the named
  file is read exactly when a file is named and the last element is not \<^verbatim>\<open>-\<close>;
  whether \<^verbatim>\<open>-\<close> occurs earlier in the arguments plays no part.
\<close>

theorem stdin_flag_is_last_argument:
  assumes "os_Args e \<noteq> []" and "kingpin_Parse e (drop 1 (os_Args e)) = Inr p"
    and "newClient e (cfg p) = Inr ctl"
    and "(cmd p = cmdClusterPatch \<and> f = cmdClusterPatchFile p)
       \<or> (cmd p = cmdClusterReplace \<and> f = cmdClusterReplaceFile p)"
  shows "(\<exists>calls. events (run e) = EvInitLoggerCLI # snd (readFile e f (last (os_Args e) = ''-'')) @ calls
           \<and> (snd (fst (readFile e f (last (os_Args e) = ''-''))) \<noteq> None \<longrightarrow> calls = []))
    \<and> (snd (fst (readFile e f (last (os_Args e) = ''-''))) \<noteq> None \<longrightarrow>
          ending (run e) = Returned (trace_Wrap (snd (fst (readFile e f (last (os_Args e) = ''-'')))) ''''))
    \<and> (\<forall>cluster data. EvPatchConfig cluster data \<in> set (events (run e))
                        \<or> EvReplaceConfig cluster data \<in> set (events (run e))
          \<longrightarrow> data = fst (fst (readFile e f (last (os_Args e) = ''-''))))
    \<and> (EvReadStdin \<in> set (events (run e)) \<longleftrightarrow> last (os_Args e) = ''-'' \<and> f = '''')
    \<and> (EvReadFile f \<in> set (events (run e)) \<longleftrightarrow> last (os_Args e) \<noteq> ''-'' \<and> f \<noteq> '''')"
proof -
  let ?flag = "last (os_Args e) = ''-''"
  obtain calls where evs: "events (run e) = EvInitLoggerCLI # snd (readFile e f ?flag) @ calls"
    and quiet: "EvReadStdin \<notin> set calls" "EvReadFile f \<notin> set calls"
    and payload: "\<forall>cluster data. EvPatchConfig cluster data \<in> set calls
        \<or> EvReplaceConfig cluster data \<in> set calls \<longrightarrow> data = fst (fst (readFile e f ?flag))"
    and failed: "snd (fst (readFile e f ?flag)) \<noteq> None \<longrightarrow>
        calls = [] \<and> ending (run e) = Returned (trace_Wrap (snd (fst (readFile e f ?flag))) '''')"
    using run_resolves [OF assms] by blast
  have first: "\<exists>calls. events (run e) = EvInitLoggerCLI # snd (readFile e f ?flag) @ calls
      \<and> (snd (fst (readFile e f ?flag)) \<noteq> None \<longrightarrow> calls = [])"
    using evs failed by blast
  have second: "snd (fst (readFile e f ?flag)) \<noteq> None \<longrightarrow>
      ending (run e) = Returned (trace_Wrap (snd (fst (readFile e f ?flag))) '''')"
    using failed by blast
  have third: "\<forall>cluster data. EvPatchConfig cluster data \<in> set (events (run e))
      \<or> EvReplaceConfig cluster data \<in> set (events (run e))
      \<longrightarrow> data = fst (fst (readFile e f ?flag))"
    using evs payload by (auto simp: readFile_events)
  have fourth: "EvReadStdin \<in> set (events (run e)) \<longleftrightarrow> ?flag \<and> f = ''''"
    using evs quiet by (auto simp: readFile_events)
  have fifth: "EvReadFile f \<in> set (events (run e)) \<longleftrightarrow> \<not> ?flag \<and> f \<noteq> ''''"
    using evs quiet by (auto simp: readFile_events)
  show ?thesis
    using first second third fourth fifth by blast
qed

theorem stdin_flag_is_last_argument_witness:
  "EvReadStdin \<in> set (events (run (sample_env [''stolonctl'', ''cluster'', ''patch'', ''--'', ''-''])))
   \<and> EvReadStdin \<notin> set (events (run (sample_env
         [''stolonctl'', ''cluster'', ''patch'', ''--file=./patch.json'', ''mycluster''])))
   \<and> EvReadFile ''./patch.json'' \<in> set (events (run (sample_env
         [''stolonctl'', ''cluster'', ''patch'', ''--file=./patch.json'', ''mycluster''])))
   \<and> EvReadStdin \<in> set (events (run (sample_env [''stolonctl'', ''cluster'', ''replace'', ''--'', ''-''])))"
proof -
  let ?e1 = "sample_env [''stolonctl'', ''cluster'', ''patch'', ''--'', ''-'']"
  let ?p1 = "(parsed_defaults ''cluster patch'' False)\<lparr>cmdClusterPatchName := ''-''\<rparr>"
  let ?e2 = "sample_env [''stolonctl'', ''cluster'', ''patch'', ''--file=./patch.json'', ''mycluster'']"
  let ?p2 = "(parsed_defaults ''cluster patch'' False)
               \<lparr>cmdClusterPatchName := ''mycluster'', cmdClusterPatchFile := ''./patch.json''\<rparr>"
  let ?e3 = "sample_env [''stolonctl'', ''cluster'', ''replace'', ''--'', ''-'']"
  let ?p3 = "(parsed_defaults ''cluster replace'' False)\<lparr>cmdClusterReplaceName := ''-''\<rparr>"
  have args: "os_Args ?e1 \<noteq> []" "os_Args ?e2 \<noteq> []" "os_Args ?e3 \<noteq> []"
    by (simp_all add: sample_env_def)
  have parse: "kingpin_Parse ?e1 (drop 1 (os_Args ?e1)) = Inr ?p1"
    "kingpin_Parse ?e2 (drop 1 (os_Args ?e2)) = Inr ?p2"
    "kingpin_Parse ?e3 (drop 1 (os_Args ?e3)) = Inr ?p3"
    by (simp_all add: sample_env_def sample_Parse_def)
  have clt: "newClient ?e1 (cfg ?p1) = Inr sample_client" "newClient ?e2 (cfg ?p2) = Inr sample_client"
    "newClient ?e3 (cfg ?p3) = Inr sample_client"
    by (simp_all add: sample_env_def)
  have cmds: "(cmd ?p1 = cmdClusterPatch \<and> '''' = cmdClusterPatchFile ?p1)
        \<or> (cmd ?p1 = cmdClusterReplace \<and> '''' = cmdClusterReplaceFile ?p1)"
    "(cmd ?p2 = cmdClusterPatch \<and> ''./patch.json'' = cmdClusterPatchFile ?p2)
        \<or> (cmd ?p2 = cmdClusterReplace \<and> ''./patch.json'' = cmdClusterReplaceFile ?p2)"
    "(cmd ?p3 = cmdClusterPatch \<and> '''' = cmdClusterPatchFile ?p3)
        \<or> (cmd ?p3 = cmdClusterReplace \<and> '''' = cmdClusterReplaceFile ?p3)"
    by (simp_all add: parsed_defaults_def cmdClusterPatch_def cmdClusterReplace_def)
  have lasts: "last (os_Args ?e1) = ''-''" "last (os_Args ?e2) \<noteq> ''-''" "last (os_Args ?e3) = ''-''"
    by (simp_all add: sample_env_def)
  show ?thesis
    using stdin_flag_is_last_argument [OF args(1) parse(1) clt(1) cmds(1)]
      stdin_flag_is_last_argument [OF args(2) parse(2) clt(2) cmds(2)]
      stdin_flag_is_last_argument [OF args(3) parse(3) clt(3) cmds(3)]
      lasts
    by simp
qed

lemma readFile_no_logger:
  "readFile e fileName readStdin = (r, evs) \<Longrightarrow> EvInitLoggerDebug \<notin> set evs"
  by (auto simp: readFile_def split: if_splits prod.splits)

lemma patchConfig_no_logger:
  "patchConfig e clt n f s = (err, evs) \<Longrightarrow> EvInitLoggerDebug \<notin> set evs"
  by (auto simp: patchConfig_def split: if_splits prod.splits sum.splits dest: readFile_no_logger)

lemma replaceConfig_no_logger:
  "replaceConfig e clt n f s = (err, evs) \<Longrightarrow> EvInitLoggerDebug \<notin> set evs"
  by (auto simp: replaceConfig_def split: if_splits prod.splits sum.splits dest: readFile_no_logger)

lemma printConfig_no_logger:
  "printConfig e clt n = (err, evs) \<Longrightarrow> EvInitLoggerDebug \<notin> set evs"
  by (auto simp: printConfig_def split: if_splits prod.splits sum.splits)

lemma list_clusters_no_logger:
  "list_clusters e clt = (err, evs) \<Longrightarrow> EvInitLoggerDebug \<notin> set evs"
  by (auto simp: list_clusters_def split: sum.splits)

lemma run_events_shape:
  "\<exists>evs. events (run e) = EvInitLoggerCLI # evs \<and> EvInitLoggerDebug \<notin> set evs"
  by (auto simp: run_def Let_def split: sum.splits prod.splits
      dest: patchConfig_no_logger replaceConfig_no_logger printConfig_no_logger
        list_clusters_no_logger)

text \<open>
  C10. Whatever the arguments are and whatever value parsing them gives the
  \<^verbatim>\<open>debug\<close> variable, the first thing \<^verbatim>\<open>run\<close> does is initialise the logger for
  the command line, and it never initialises the debug logger: the variable is read before
  the arguments are parsed, when it still holds false.
\<close>

theorem logger_is_always_cli:
  "events (run e) \<noteq> [] \<and> hd (events (run e)) = EvInitLoggerCLI
   \<and> EvInitLoggerDebug \<notin> set (events (run e))"
  using run_events_shape [of e] by auto

theorem logger_is_always_cli_witness:
  "debug_var (run (sample_env [''stolonctl'', ''--debug'', ''cluster'', ''list''])) = True
   \<and> hd (events (run (sample_env [''stolonctl'', ''--debug'', ''cluster'', ''list'']))) = EvInitLoggerCLI
   \<and> EvInitLoggerDebug \<notin> set (events (run (sample_env [''stolonctl'', ''--debug'', ''cluster'', ''list''])))"
proof -
  let ?e = "sample_env [''stolonctl'', ''--debug'', ''cluster'', ''list'']"
  have "debug_var (run ?e) = True"
    by (simp add: run_def sample_env_def sample_Parse_def parsed_defaults_def sample_client_def
        list_clusters_def cmdClusterConfig_def cmdClusterPatch_def cmdClusterReplace_def
        cmdClusterStatus_def cmdClusterList_def)
  then show ?thesis
    using logger_is_always_cli [of ?e] by simp
qed

section \<open>Printing the configuration\<close>

lemma decimal_nonempty: "decimal n \<noteq> []"
  by (subst decimal.simps) simp

lemma join_space_length:
  "\<forall>s \<in> set ss. s \<noteq> [] \<Longrightarrow> length ss \<le> length (join_space ss)"
proof (induction ss rule: join_space.induct)
  case 1
  then show ?case by simp
next
  case (2 s)
  then show ?case by (cases s) simp_all
next
  case (3 s t ss)
  then have "length (t # ss) \<le> length (join_space (t # ss))"
    by simp
  moreover have "s \<noteq> []"
    using "3.prems" by simp
  ultimately show ?case
    by (cases s) simp_all
qed

lemma fmt_Sprintln_bytes_longer:
  "length data + 3 \<le> length (fmt_Sprintln_bytes data)"
proof -
  have "length (map (\<lambda>b. decimal (unat b)) data)
          \<le> length (join_space (map (\<lambda>b. decimal (unat b)) data))"
    by (rule join_space_length) (simp add: decimal_nonempty)
  then show ?thesis
    by (simp add: fmt_Sprintln_bytes_def)
qed

lemma printed_bytes_are_not_the_text:
  "fmt_Sprintln_bytes data \<noteq> string_of_bytes data @ [newline]"
proof
  assume "fmt_Sprintln_bytes data = string_of_bytes data @ [newline]"
  then have "length (fmt_Sprintln_bytes data) = length data + 1"
    by (simp add: string_of_bytes_def)
  then show False
    using fmt_Sprintln_bytes_longer [of data] by simp
qed

lemma printConfig_output:
  assumes "client_getCluster clt clusterName = Inr cluster"
    and "cluster_Config clt cluster = Inr c"
    and "json_MarshalIndent e c '''' [tab] = (data, None)"
  shows "printConfig e clt clusterName =
     (None, [EvGetCluster clusterName, EvConfig cluster, EvStdout (fmt_Sprintln_bytes data)])"
  using assms by (simp add: printConfig_def)

text \<open>
  C6, at the store whose configuration marshals to the two bytes \<^verbatim>\<open>{}\<close>: the
  \<^verbatim>\<open>config\<close> command writes the line \<^verbatim>\<open>[123 125]\<close>, the decimal values of the
  bytes, and not the line \<^verbatim>\<open>{}\<close>, the text that \<^verbatim>\<open>json.MarshalIndent\<close> produced.
\<close>

theorem printConfig_prints_byte_values:
  "printConfig (sample_env [''stolonctl'', ''cluster'', ''config'', ''mycluster''])
       sample_client ''mycluster'' =
     (None, [EvGetCluster ''mycluster'', EvConfig 1, EvStdout (''[123 125]'' @ [newline])])
   \<and> ''[123 125]'' @ [newline] \<noteq> string_of_bytes (bytes_of_string ''{}'') @ [newline]
   \<and> string_of_bytes (bytes_of_string ''{}'') = ''{}''"
  by code_simp

section \<open>Startup of the RPC service\<close>

lemma GetConfig_failure:
  "envconfig_Process e = (c, Some err) \<Longrightarrow>
     GetConfig e = (None, Some (TraceErr ErrCantParseConfig ''''))"
  by (simp add: GetConfig_def)

lemma main_config_failure:
  assumes "envconfig_Process e = (c, Some err)"
  shows "stolonrpc_main e =
     \<lparr>rpc_events = [],
      rpc_ending = RuntimePanic ''invalid memory address or nil pointer dereference'',
      receives = 0\<rparr>"
  using GetConfig_failure [OF assms] by (simp add: stolonrpc_main_def)

lemma main_startup:
  assumes "envconfig_Process e = (c, None)"
  shows "stolonrpc_main e =
     \<lparr>rpc_events = snd (setupLogging e (LogLevel c))
         @ [LogInfof (''Start with config: '' @ fmt_Config c)] @ serve c
         @ rpc_events (supervise (selected e)),
      rpc_ending = rpc_ending (supervise (selected e)),
      receives = receives (supervise (selected e))\<rparr>"
  using assms by (simp add: stolonrpc_main_def GetConfig_def Let_def split: prod.splits)

lemma main_ignores_severity_error:
  assumes "envconfig_Process e = (c, None)"
    and "log_ParseLevel e (strings_ToLower e (LogLevel c)) = Inl err"
  shows "fst (setupLogging e (LogLevel c)) = Some err"
    and "RpcNewServer \<in> set (rpc_events (stolonrpc_main e))"
    and "GoListenAndServe (net_JoinHostPort_empty (Port c)) \<in> set (rpc_events (stolonrpc_main e))"
  using assms(2) main_startup [OF assms(1)]
  by (simp_all add: setupLogging_def Let_def serve_def)

text \<open>
  C2, at the environment that sets the log level to \<^verbatim>\<open>bogus\<close> and the port to 8080,
  with no fault and no signal delivered: \<^verbatim>\<open>setupLogging\<close> returns the error of
  \<^verbatim>\<open>log.ParseLevel\<close>, and \<^verbatim>\<open>main\<close> goes on all the same: it constructs the RPC
  server, starts the listener on \<^verbatim>\<open>:8080\<close> and waits in the supervision loop.
\<close>

theorem unknown_severity_does_not_stop_startup:
  "setupLogging (sample_rpc_env ''bogus'' []) ''bogus'' =
     (Some (PlainError ''not a valid logrus Level: bogus''), [])
   \<and> stolonrpc_main (sample_rpc_env ''bogus'' []) =
     \<lparr>rpc_events =
        [LogInfof ''Start with config: &{LogLevel:bogus Port:8080 DatabaseHost:db DatabasePort:5432 DatabaseUsername:stolon}'',
         RpcNewServer,
         RegisterCodec ''application/json'',
         RegisterCodec ''application/json;charset=UTF-8'',
         RegisterService ''DatabaseOperation''
           \<lparr>conn_Host = ''db'', conn_Port = ''5432'', conn_Username = ''stolon''\<rparr>,
         RouterHandle ''/rpc'',
         GoListenAndServe '':8080'',
         SignalNotify [SIGINT, SIGTERM]],
      rpc_ending = Waiting, receives = 0\<rparr>"
  by code_simp

section \<open>The supervision loop\<close>

lemma supervise_skips_nil_faults:
  "\<forall>r \<in> set nils. r = FromErrChan None \<Longrightarrow>
     supervise (nils @ rs) = (supervise rs)\<lparr>receives := length nils + receives (supervise rs)\<rparr>"
  by (induction nils) (simp_all add: Let_def)

lemma supervise_outcomes_at_most_one:
  "length (filter is_fatal (rpc_events (supervise rs)))
     + length (filter is_captured (rpc_events (supervise rs))) \<le> 1"
  by (induction rs rule: supervise.induct) (simp_all add: Let_def split: option.splits)

lemma supervise_fatal_iff:
  "rpc_ending (supervise rs) = Exited 1 \<longleftrightarrow> (\<exists>err. rpc_events (supervise rs) = [LogFatal err])"
  by (induction rs rule: supervise.induct) (simp_all add: Let_def split: option.splits)

lemma supervise_graceful_iff:
  "rpc_ending (supervise rs) = Exited 0 \<longleftrightarrow>
     (\<exists>s. rpc_events (supervise rs) = [LogInfof (''Captured '' @ signal_String s @ ''. Exiting...'')])"
  by (induction rs rule: supervise.induct) (auto simp: Let_def split: option.splits)

lemma supervise_ending:
  "rpc_ending (supervise rs) =
     (case dropWhile is_nil_fault rs of
        [] \<Rightarrow> Waiting
      | FromErrChan err # rest \<Rightarrow> Exited 1
      | FromSignalChan s # rest \<Rightarrow> Exited 0)"
  by (induction rs rule: supervise.induct)
    (simp_all add: Let_def is_nil_fault_def split: option.splits)

text \<open>
  C3. The only value ever sent on the fault channel is the result of
  \<^verbatim>\<open>http.ListenAndServe\<close>, which is never nil. When no nil is delivered, the first
  value the loop receives ends the process, so nothing is received after it: a value of the
  fault channel ends it with \<^verbatim>\<open>log.Fatal\<close> and exit status 1, a signal with the call
  \<^verbatim>\<open>log.Infof("Captured %s. Exiting...", s)\<close> and exit status 0. Exactly one of the
  two calls is made, once, and the process ends with exactly one of the two exit statuses.
\<close>

theorem supervise_ends_once:
  assumes "FromErrChan None \<notin> set (r # rs)"
  shows "receives (supervise (r # rs)) = 1
    \<and> (\<forall>fault. r = FromErrChan fault \<longrightarrow>
          (\<exists>err. fault = Some err
             \<and> supervise (r # rs) =
                 \<lparr>rpc_events = [LogFatal err], rpc_ending = Exited 1, receives = 1\<rparr>))
    \<and> (\<forall>s. r = FromSignalChan s \<longrightarrow>
          supervise (r # rs) =
            \<lparr>rpc_events = [LogInfof (''Captured '' @ signal_String s @ ''. Exiting...'')],
             rpc_ending = Exited 0, receives = 1\<rparr>)
    \<and> length (filter is_fatal (rpc_events (supervise (r # rs))))
         + length (filter is_captured (rpc_events (supervise (r # rs)))) = 1
    \<and> (rpc_ending (supervise (r # rs)) = Exited 1 \<or> rpc_ending (supervise (r # rs)) = Exited 0)
    \<and> (rpc_ending (supervise (r # rs)) = Exited 1 \<longleftrightarrow> (\<exists>fault. r = FromErrChan fault))
    \<and> (rpc_ending (supervise (r # rs)) = Exited 0 \<longleftrightarrow> (\<exists>s. r = FromSignalChan s))"
proof (cases r)
  case (FromErrChan fault)
  then obtain err where "fault = Some err"
    using assms by (cases fault) auto
  with FromErrChan show ?thesis
    by simp
next
  case (FromSignalChan s)
  then show ?thesis
    by simp
qed

theorem supervise_ends_once_witness:
  "supervise (FromErrChan (Some (PlainError ''listen tcp :8080: bind: address already in use''))
               # [FromSignalChan SIGINT]) =
     \<lparr>rpc_events = [LogFatal (PlainError ''listen tcp :8080: bind: address already in use'')],
      rpc_ending = Exited 1, receives = 1\<rparr>
   \<and> supervise (FromSignalChan SIGTERM
               # [FromErrChan (Some (PlainError ''listen tcp :8080: bind: address already in use''))]) =
     \<lparr>rpc_events = [LogInfof ''Captured terminated. Exiting...''], rpc_ending = Exited 0,
      receives = 1\<rparr>"
proof -
  let ?fault = "FromErrChan (Some (PlainError ''listen tcp :8080: bind: address already in use''))"
  have first: "FromErrChan None \<notin> set (?fault # [FromSignalChan SIGINT])"
    by simp
  have second: "FromErrChan None \<notin> set (FromSignalChan SIGTERM # [?fault])"
    by simp
  show ?thesis
    using supervise_ends_once [OF first] supervise_ends_once [OF second]
    by simp
qed

text \<open>
  C9. A nil value of the fault channel changes nothing but the number of receives: no entry
  is written, the process does not end, and the loop goes on with what arrives next. So a
  loop that receives only nil values keeps waiting, and the process ends only at the first
  received value that is not such a nil: with exit status 1 when it is a fault, with exit
  status 0 when it is a signal.
\<close>

theorem nil_fault_keeps_waiting:
  "supervise (FromErrChan None # rs) = (supervise rs)\<lparr>receives := Suc (receives (supervise rs))\<rparr>
   \<and> ((\<forall>r \<in> set rs. r = FromErrChan None) \<longrightarrow>
        supervise rs = \<lparr>rpc_events = [], rpc_ending = Waiting, receives = length rs\<rparr>)
   \<and> rpc_ending (supervise rs) =
       (case dropWhile is_nil_fault rs of
          [] \<Rightarrow> Waiting
        | FromErrChan err # rest \<Rightarrow> Exited 1
        | FromSignalChan s # rest \<Rightarrow> Exited 0)"
  using supervise_skips_nil_faults [of rs "[]"] supervise_ending [of rs]
  by (simp add: Let_def)

theorem nil_fault_keeps_waiting_witness:
  "supervise [FromErrChan None, FromErrChan None] =
     \<lparr>rpc_events = [], rpc_ending = Waiting, receives = 2\<rparr>
   \<and> supervise (FromErrChan None # [FromSignalChan SIGINT]) =
       (supervise [FromSignalChan SIGINT])\<lparr>receives := Suc (receives (supervise [FromSignalChan SIGINT]))\<rparr>"
  using nil_fault_keeps_waiting [of "[FromErrChan None, FromErrChan None]"]
    nil_fault_keeps_waiting [of "[FromSignalChan SIGINT]"]
  by simp

end
